theory Spec2Isabelle
  imports Main "HOL-Library.Sublist" "HOL-Library.Multiset"
begin

section \<open>The AI proxy server (ai-server.js)\<close>

text \<open>
  The server is one Express application with eight routes and one piece of process-wide
  state, the variable \<open>currentModel\<close> (line 20). Every route handler is embedded as a
  function from the request's inputs, the outcome of the upstream calls it awaits and the
  state, to what the handler sends and the state it leaves behind.

  Conventions of the embedding:
  \<^item> JavaScript strings are \<open>string\<close> (lists of 8-bit characters); \<open>toLowerCase\<close> and
    \<open>trim\<close> are modelled on ASCII. An absent (\<open>undefined\<close>) value is \<open>None\<close>.
  \<^item> Request fields (\<open>message\<close>, \<open>asteroidName\<close>) and the upstream text segment are
    JSON strings when present.
  \<^item> The canned texts are transcribed without their non-ASCII decoration (emoji, bullet
    signs); constant \<open>note\<close>, \<open>tip\<close>, \<open>message\<close>, \<open>example\<close> fields, endpoint manifests,
    timestamps and process figures (uptime, memory, response time) of the JSON bodies are
    left out of the response record.
  \<^item> A handler whose \<open>async\<close> function throws sends nothing: its result is \<open>Inl\<close> of the
    error thrown.
  \<^item> Answers of the framework itself (an unknown route, a malformed JSON body) are outside
    the model: it covers what the eight route handlers do.
\<close>

subsection \<open>Strings\<close>

definition toLowerChar :: "char \<Rightarrow> char" where
  "toLowerChar c =
     (case map_of (zip ''ABCDEFGHIJKLMNOPQRSTUVWXYZ'' ''abcdefghijklmnopqrstuvwxyz'') c of
        Some d \<Rightarrow> d
      | None \<Rightarrow> c)"

definition toLowerCase :: "string \<Rightarrow> string" where
  "toLowerCase s = map toLowerChar s"

definition isWhiteSpace :: "char \<Rightarrow> bool" where
  "isWhiteSpace c = (c \<in> set [CHR '' '', CHR 0x09, CHR 0x0A, CHR 0x0B, CHR 0x0C, CHR 0x0D])"

definition trim :: "string \<Rightarrow> string" where
  "trim s = rev (dropWhile isWhiteSpace (rev (dropWhile isWhiteSpace s)))"

text \<open>\<open>s.includes(sub)\<close>: \<open>sub\<close> occurs in \<open>s\<close> as a contiguous run.\<close>

fun includes_str :: "string \<Rightarrow> string \<Rightarrow> bool" where
  "includes_str [] sub = (sub = [])"
| "includes_str (c # cs) sub = (prefix sub (c # cs) \<or> includes_str cs sub)"

text \<open>\<open>s.replace(pat, rep)\<close> with a string pattern: the first occurrence only.\<close>

fun replace_first :: "string \<Rightarrow> string \<Rightarrow> string \<Rightarrow> string" where
  "replace_first pat rep [] = (if pat = [] then rep else [])"
| "replace_first pat rep (c # cs) =
     (if prefix pat (c # cs) then rep @ drop (length pat) (c # cs)
      else c # replace_first pat rep cs)"

text \<open>Truthiness of a possibly absent string: \<open>undefined\<close> and \<open>""\<close> are falsy.\<close>

fun truthy :: "string option \<Rightarrow> bool" where
  "truthy None = False"
| "truthy (Some s) = (s \<noteq> [])"

text \<open>\<open>a || b\<close> for a possibly absent string \<open>a\<close> and a string \<open>b\<close>.\<close>

definition or_else :: "string option \<Rightarrow> string \<Rightarrow> string" where
  "or_else a b = (case a of None \<Rightarrow> b | Some s \<Rightarrow> if s = [] then b else s)"

definition join_lines :: "string list \<Rightarrow> string" where
  "join_lines ls = concat (map (\<lambda>l. l @ [CHR 0x0A]) (butlast ls)) @ concat [last ls]"

subsection \<open>Upstream outcomes\<close>

text \<open>
  What a handler reads of a 2xx upstream body:
  \<open>data?.candidates?.[0]?.content?.parts?.[0]?.text\<close> and
  \<open>data?.usageMetadata?.totalTokenCount\<close>.
\<close>

record upstream_data =
  candidate_text :: "string option"
  totalTokenCount :: "nat option"

text \<open>
  What a \<open>catch\<close> clause can receive. An axios error carries \<open>error.response\<close> when the
  upstream answered with a non-2xx status (its \<open>status\<close> and \<open>data?.error?.message\<close>), and none
  on a network error or a timeout; each error has a \<open>message\<close>.
\<close>

datatype js_error =
    AxiosError "(nat \<times> string option) option" string
  | JsError string
  | ReferenceError string

datatype upstream_result = Resolved upstream_data | Rejected js_error

fun err_status :: "js_error \<Rightarrow> nat option" where
  "err_status (AxiosError (Some (st, m)) msg) = Some st"
| "err_status e = None"

fun err_api_message :: "js_error \<Rightarrow> string option" where
  "err_api_message (AxiosError (Some (st, m)) msg) = m"
| "err_api_message e = None"

fun err_message :: "js_error \<Rightarrow> string" where
  "err_message (AxiosError r msg) = msg"
| "err_message (JsError msg) = msg"
| "err_message (ReferenceError v) = v @ '' is not defined''"

subsection \<open>State and responses\<close>

record server_state =
  currentModel :: string

definition initial_state :: server_state where
  "initial_state = \<lparr>currentModel = ''gemini-2.5-flash''\<rparr>"

datatype tokens = TokenCount nat | TokensUnknown

record model_entry =
  entry_name :: string
  entry_displayName :: "string option"
  entry_description :: "string option"
  supportedMethods :: "string list"

record http_response =
  status :: nat
  success :: "bool option"
  response :: "string option"
  error :: "string option"
  model :: "string option"
  r_currentModel :: "string option"
  r_status :: "string option"
  tokens :: "tokens option"
  asteroid :: "string option"
  models :: "model_entry list option"
  total :: "nat option"
  recommendedModels :: "string list option"
  fallbackModels :: "string list option"
  triedModels :: "string list option"

text \<open>\<open>res.json(...)\<close> without \<open>res.status(...)\<close> answers 200.\<close>

definition res_json :: http_response where
  "res_json = \<lparr>status = 200, success = None, response = None, error = None, model = None,
     r_currentModel = None, r_status = None, tokens = None, asteroid = None, models = None,
     total = None, recommendedModels = None, fallbackModels = None, triedModels = None\<rparr>"

type_synonym outcome = "(js_error + http_response) \<times> server_state"

subsection \<open>GET /test, GET /health, POST /echo\<close>

definition test_handler :: "server_state \<Rightarrow> outcome" where
  "test_handler s =
     (Inr (res_json\<lparr>r_status := Some ''active'', r_currentModel := Some (currentModel s)\<rparr>), s)"

definition health_handler :: "server_state \<Rightarrow> outcome" where
  "health_handler s =
     (Inr (res_json\<lparr>r_status := Some ''HEALTHY'', r_currentModel := Some (currentModel s)\<rparr>), s)"

definition echo_handler :: "string option \<Rightarrow> server_state \<Rightarrow> outcome" where
  "echo_handler message s =
     (Inr (res_json\<lparr>
        response := Some (''Echo from Stellar Observatory: \"''
                          @ or_else message ''Silence in space...'' @ ''\"''),
        model := Some (currentModel s),
        r_status := Some ''Operational''\<rparr>), s)"

subsection \<open>GET /models\<close>

text \<open>A model as the upstream lists it (only the fields the handler reads).\<close>

record model_descriptor =
  name :: "string option"
  displayName :: "string option"
  description :: "string option"
  supportedGenerationMethods :: "string list option"

text \<open>
  The outcome of the listing call: \<open>response.data.models\<close> (possibly absent) or a rejection.
\<close>

datatype models_result = ModelsResolved "model_descriptor list option" | ModelsRejected js_error

text \<open>The filter predicate of lines 51-60.\<close>

definition keep_model :: "model_descriptor \<Rightarrow> bool" where
  "keep_model m =
     (case name m of
        None \<Rightarrow> False
      | Some n \<Rightarrow>
          n \<noteq> [] \<and>
          (case supportedGenerationMethods m of
             None \<Rightarrow> False
           | Some ms \<Rightarrow>
               ''generateContent'' \<in> set ms \<and>
               \<not> includes_str n ''embedding'' \<and>
               \<not> includes_str n ''imagen'' \<and>
               \<not> includes_str n ''veo'' \<and>
               \<not> includes_str n ''audio'' \<and>
               \<not> includes_str n ''tts''))"

text \<open>
  The mapping of lines 61-66. It runs on models that passed the filter, whose \<open>name\<close> is
  present; the \<open>None\<close> branch is never reached there.
\<close>

definition to_entry :: "model_descriptor \<Rightarrow> model_entry" where
  "to_entry m =
     \<lparr>entry_name = replace_first ''models/'' [] (case name m of Some n \<Rightarrow> n | None \<Rightarrow> []),
      entry_displayName = displayName m,
      entry_description = description m,
      supportedMethods = (case supportedGenerationMethods m of Some ms \<Rightarrow> ms | None \<Rightarrow> [])\<rparr>"

text \<open>
  The comparator of lines 67-72. \<open>String.prototype.localeCompare\<close> belongs to the host
  (its order is the collation of the process's locale), so it is a parameter.
\<close>

definition compareModels :: "(string \<Rightarrow> string \<Rightarrow> int) \<Rightarrow> model_entry \<Rightarrow> model_entry \<Rightarrow> int" where
  "compareModels localeCompare a b =
     (if includes_str (entry_name a) ''flash'' \<and> \<not> includes_str (entry_name b) ''flash'' then - 1
      else if \<not> includes_str (entry_name a) ''flash'' \<and> includes_str (entry_name b) ''flash'' then 1
      else localeCompare (entry_name a) (entry_name b))"

text \<open>
  \<open>Array.prototype.sort(cmp)\<close> is a stable sort: it is modelled as insertion sort, which
  puts an element before the first later element it does not compare greater than.
\<close>

fun insert_by :: "('a \<Rightarrow> 'a \<Rightarrow> int) \<Rightarrow> 'a \<Rightarrow> 'a list \<Rightarrow> 'a list" where
  "insert_by cmp x [] = [x]"
| "insert_by cmp x (y # ys) = (if cmp x y \<le> 0 then x # y # ys else y # insert_by cmp x ys)"

definition js_sort :: "('a \<Rightarrow> 'a \<Rightarrow> int) \<Rightarrow> 'a list \<Rightarrow> 'a list" where
  "js_sort cmp xs = foldr (insert_by cmp) xs []"

definition textModels :: "(string \<Rightarrow> string \<Rightarrow> int) \<Rightarrow> model_descriptor list \<Rightarrow> model_entry list" where
  "textModels localeCompare ms =
     js_sort (compareModels localeCompare) (map to_entry (filter keep_model ms))"

definition recommended :: "model_entry \<Rightarrow> bool" where
  "recommended m =
     (includes_str (entry_name m) ''flash'' \<or> includes_str (entry_name m) ''pro'' \<or>
      entry_name m = ''gemini-exp-1206'')"

definition models_handler :: "(string \<Rightarrow> string \<Rightarrow> int) \<Rightarrow> models_result \<Rightarrow> server_state \<Rightarrow> outcome" where
  "models_handler localeCompare up s =
     (case up of
        ModelsResolved ms \<Rightarrow>
          (let tm = textModels localeCompare (case ms of Some l \<Rightarrow> l | None \<Rightarrow> [])
           in (Inr (res_json\<lparr>
                 success := Some True,
                 models := Some tm,
                 total := Some (length tm),
                 r_currentModel := Some (currentModel s),
                 recommendedModels := Some (map entry_name (filter recommended tm))\<rparr>), s))
      | ModelsRejected e \<Rightarrow>
          (Inr (res_json\<lparr>
             success := Some False,
             error := Some (err_message e),
             r_currentModel := Some (currentModel s),
             fallbackModels := Some [''gemini-2.5-flash'', ''gemini-2.0-flash'',
                                     ''gemini-pro-latest'', ''gemini-exp-1206'']\<rparr>), s))"

text \<open>
  Code-unit lexicographic comparison, one admissible \<open>localeCompare\<close>; it stands for the
  parameter where a concrete order is needed.
\<close>

definition charCode :: "char \<Rightarrow> nat" where
  "charCode c = of_char c"

fun lexCompare :: "string \<Rightarrow> string \<Rightarrow> int" where
  "lexCompare [] [] = 0"
| "lexCompare [] (y # ys) = - 1"
| "lexCompare (x # xs) [] = 1"
| "lexCompare (x # xs) (y # ys) =
     (if charCode x < charCode y then - 1
      else if charCode y < charCode x then 1
      else lexCompare xs ys)"

subsection \<open>GET /test-gemini\<close>

definition testFallbackModels :: "string list" where
  "testFallbackModels =
     [''gemini-2.0-flash'', ''gemini-pro-latest'', ''gemini-exp-1206'', ''gemini-2.0-flash-001'']"

text \<open>An upstream call yields text when it resolves and its first text segment is truthy.\<close>

definition yields_text :: "upstream_result \<Rightarrow> bool" where
  "yields_text r = (case r of Resolved d \<Rightarrow> truthy (candidate_text d) | Rejected e \<Rightarrow> False)"

text \<open>
  The loop of lines 146-173 over the fallback list. \<open>probe m\<close> is the outcome of the call
  made with model \<open>m\<close>. The result is the list of models called, in the order of the
  calls, and the model the loop returned at, if any: a rejected call is skipped by
  \<open>continue\<close>, a resolved call without text falls through to the next iteration.
\<close>

fun probe_fallbacks :: "(string \<Rightarrow> upstream_result) \<Rightarrow> string list \<Rightarrow> string list \<times> string option" where
  "probe_fallbacks probe [] = ([], None)"
| "probe_fallbacks probe (m # ms) =
     (if yields_text (probe m) then ([m], Some m)
      else (m # fst (probe_fallbacks probe ms), snd (probe_fallbacks probe ms)))"

text \<open>
  The \<open>try\<close> block of lines 100-138: the call with \<open>currentModel\<close>, whose outcome is
  \<open>up\<close>; an answer without text is thrown as an error.
\<close>

definition test_gemini_try :: "upstream_result \<Rightarrow> server_state \<Rightarrow> js_error + http_response" where
  "test_gemini_try up s =
     (case up of
        Rejected e \<Rightarrow> Inl e
      | Resolved d \<Rightarrow>
          if \<not> truthy (candidate_text d) then Inl (JsError ''No text in response from AI'')
          else Inr (res_json\<lparr>
                 success := Some True,
                 model := Some (currentModel s),
                 response := candidate_text d\<rparr>))"

definition test_gemini :: "upstream_result \<Rightarrow> (string \<Rightarrow> upstream_result) \<Rightarrow> server_state \<Rightarrow> outcome" where
  "test_gemini up probe s =
     (case test_gemini_try up s of
        Inr r \<Rightarrow> (Inr r, s)
      | Inl e \<Rightarrow>
          (case snd (probe_fallbacks probe testFallbackModels) of
             Some m \<Rightarrow>
               (Inr (res_json\<lparr>success := Some True, model := Some m\<rparr>), s\<lparr>currentModel := m\<rparr>)
           | None \<Rightarrow>
               (Inr (res_json\<lparr>
                  status := 500,
                  success := Some False,
                  error := Some (or_else (err_api_message e) (err_message e)),
                  r_currentModel := Some (currentModel s),
                  triedModels := Some testFallbackModels\<rparr>), s)))"

text \<open>The upstream calls \<open>/test-gemini\<close> makes after the first one, in order.\<close>

definition test_gemini_fallback_calls :: "upstream_result \<Rightarrow> (string \<Rightarrow> upstream_result) \<Rightarrow> server_state \<Rightarrow> string list" where
  "test_gemini_fallback_calls up probe s =
     (case test_gemini_try up s of
        Inr r \<Rightarrow> []
      | Inl e \<Rightarrow> fst (probe_fallbacks probe testFallbackModels))"

subsection \<open>POST /chat\<close>

definition rateLimitText :: string where
  "rateLimitText = ''The cosmic bandwidth is saturated right now (rate limit reached). Our telescopes are still collecting data - try again in a moment!''"

definition asteroidBucketText :: string where
  "asteroidBucketText = ''While I'm syncing with the deep space network, here's asteroid info from our local database: We track thousands of near-Earth objects. Most are small and pose no threat, but we monitor all closely. Check our Tracking page for real-time data!''"

definition marsBucketText :: string where
  "marsBucketText = ''The Mars connection has some static! Here's what I know: Mars is the 4th planet, has two moons, and is a prime target for exploration. Our 3D visualization shows its current position relative to Earth.''"

definition moonBucketText :: string where
  "moonBucketText = ''Lunar signal weak! Quick facts: Our Moon is Earth's only natural satellite, about 1/4 Earth's diameter. It heavily influences tides and is crucial for future space exploration.''"

definition starBucketText :: string where
  "starBucketText = ''Stellar interference detected! Stars are massive balls of plasma, galaxies contain billions of them. Our Milky Way has 100-400 billion stars. The observatory can simulate star fields in the 3D view!''"

definition riskBucketText :: string where
  "riskBucketText = ''Risk assessment systems nominal. We use multiple factors: distance, size, velocity, orbit. Most asteroids have minimal risk. Try our Risk Analyzer tool for detailed simulations!''"

definition genericText :: string where
  "genericText = ''Cosmic AI here! I'm experiencing some interstellar static. The Stellar Observatory platform is fully operational with asteroid tracking, risk analysis, and 3D visualization. What would you like to explore?''"

text \<open>
  Lines 318-333: the choice of the fallback text from \<open>req.body?.message\<close>.
\<close>

definition pickFallback :: "string option \<Rightarrow> string" where
  "pickFallback message =
     (let userMessage = toLowerCase (or_else message [])
      in if includes_str userMessage ''asteroid'' \<or> includes_str userMessage ''neo''
           then asteroidBucketText
         else if includes_str userMessage ''mars'' \<or> includes_str userMessage ''planet''
           then marsBucketText
         else if includes_str userMessage ''moon'' \<or> includes_str userMessage ''lunar''
           then moonBucketText
         else if includes_str userMessage ''star'' \<or> includes_str userMessage ''galaxy''
           then starBucketText
         else if includes_str userMessage ''risk'' \<or> includes_str userMessage ''danger''
           then riskBucketText
         else genericText)"

definition chatFallbackModels :: "string list" where
  "chatFallbackModels = [''gemini-2.0-flash'', ''gemini-pro-latest'', ''gemini-exp-1206'']"

text \<open>
  The loop of lines 308-314: \<open>currentModel\<close> becomes the first model of the list that
  differs from it, and the loop breaks.
\<close>

fun switch_model :: "string list \<Rightarrow> server_state \<Rightarrow> server_state" where
  "switch_model [] s = s"
| "switch_model (m # ms) s =
     (if m \<noteq> currentModel s then s\<lparr>currentModel := m\<rparr> else switch_model ms s)"

text \<open>The \<open>catch\<close> clause of lines 291-344, entered with the error \<open>e\<close>.\<close>

definition chat_catch :: "string option \<Rightarrow> js_error \<Rightarrow> server_state \<Rightarrow> outcome" where
  "chat_catch message e s =
     (if err_status e = Some 429 then
        (Inr (res_json\<lparr>
           status := 429,
           response := Some rateLimitText,
           success := Some False,
           error := Some ''Rate limit exceeded'',
           model := Some (currentModel s)\<rparr>), s)
      else
        (let s' = (if err_status e = Some 404 then switch_model chatFallbackModels s else s)
         in (Inr (res_json\<lparr>
               response := Some (pickFallback message),
               success := Some False,
               error := Some (or_else (err_api_message e) ''Connection issue''),
               model := Some (currentModel s')\<rparr>), s')))"

text \<open>
  The handler of lines 193-345. \<open>message\<close> is \<open>req.body.message\<close>; \<open>up\<close> is the outcome of
  the upstream call, which is made only when the message is present.
\<close>

definition chat :: "string option \<Rightarrow> upstream_result \<Rightarrow> server_state \<Rightarrow> outcome" where
  "chat message up s =
     (if \<not> truthy message then
        (Inr (res_json\<lparr>status := 400, error := Some ''Message is required''\<rparr>), s)
      else
        (case up of
           Rejected e \<Rightarrow> chat_catch message e s
         | Resolved d \<Rightarrow>
             if truthy (candidate_text d) then
               (Inr (res_json\<lparr>
                  response := candidate_text d,
                  success := Some True,
                  model := Some (currentModel s),
                  tokens := Some (case totalTokenCount d of
                                    None \<Rightarrow> TokensUnknown
                                  | Some n \<Rightarrow> if n = 0 then TokensUnknown else TokenCount n)\<rparr>), s)
             else chat_catch message (JsError ''AI returned empty response'') s))"

subsection \<open>POST /asteroid-info\<close>

definition bennuSheet :: string where
  "bennuSheet = join_lines [''**101955 Bennu**'', ''Discovered: 1999'', ''Size: ~500m diameter'',
     ''Type: Carbonaceous (primitive)'', ''Mission: NASA OSIRIS-REx (sample return 2023)'',
     ''Risk: 1-in-2,700 chance of impact in 2182'',
     ''Fun fact: One of most potentially hazardous asteroids known'']"

definition apophisSheet :: string where
  "apophisSheet = join_lines [''**99942 Apophis**'', ''Discovered: 2004'', ''Size: ~370m diameter'',
     ''Fame: Caused concern with initial 2.7% impact probability for 2029'',
     ''Update: Will safely pass Earth at ~31,000km on April 13, 2029'',
     ''Visible: Will be naked-eye visible during 2029 flyby'']"

definition ceresSheet :: string where
  "ceresSheet = join_lines [''**1 Ceres**'', ''Largest object in asteroid belt (940km)'',
     ''Status: Dwarf planet (since 2006)'',
     ''Composition: Rock/ice, possible subsurface ocean'',
     ''Mission: NASA Dawn orbiter (2015-2018)'',
     ''Significance: Contains 25% of asteroid belt's mass'']"

definition erosSheet :: string where
  "erosSheet = join_lines [''**433 Eros**'', ''First NEO discovered (1898)'',
     ''Size: 33x13x13 km (potato-shaped!)'',
     ''Mission: NEAR Shoemaker orbited & landed (2000-2001)'',
     ''Orbit: Brings it within 0.15 AU of Earth'', ''Type: S-type (stony)'']"

definition itokawaSheet :: string where
  "itokawaSheet = join_lines [''**25143 Itokawa**'', ''Size: 535x294x209m'',
     ''Mission: JAXA Hayabusa (first asteroid sample return, 2010)'',
     ''Type: Rubble pile (loose collection of rocks)'', ''Shape: Looks like a sea otter!'',
     ''Samples: ~1,500 grains returned to Earth'']"

text \<open>
  The object literal of lines 417-423, by its own keys (properties inherited from
  \<open>Object.prototype\<close> are not modelled).
\<close>

definition asteroidDatabase :: "(string \<times> string) list" where
  "asteroidDatabase =
     [(''bennu'', bennuSheet), (''apophis'', apophisSheet), (''ceres'', ceresSheet),
      (''eros'', erosSheet), (''itokawa'', itokawaSheet)]"

definition underAnalysis :: "string \<Rightarrow> string" where
  "underAnalysis asteroidName = ''Asteroid **'' @ asteroidName @ ''** is being analyzed by our deep space telescopes. While we await spectral data, here's what we know: Most asteroids orbit between Mars and Jupiter, but Near-Earth Objects like this require careful tracking for planetary defense.''"

text \<open>
  The expression of lines 425-427, as a function of the value the identifier
  \<open>asteroidName\<close> is bound to.
\<close>

definition asteroid_fallback :: "string \<Rightarrow> string" where
  "asteroid_fallback asteroidName =
     (let lowerName = trim (toLowerCase asteroidName)
      in or_else (map_of asteroidDatabase lowerName) (underAnalysis asteroidName))"

text \<open>
  The \<open>catch\<close> clause of lines 413-438, run in the scope \<open>scope\<close>: the bindings of string
  variables visible in it, by identifier. Reading an identifier that no enclosing scope
  binds throws a \<open>ReferenceError\<close>; the first such read is on line 425.
\<close>

definition asteroid_info_catch :: "(string \<rightharpoonup> string) \<Rightarrow> js_error \<Rightarrow> server_state \<Rightarrow> outcome" where
  "asteroid_info_catch scope e s =
     (case scope ''asteroidName'' of
        None \<Rightarrow> (Inl (ReferenceError ''asteroidName''), s)
      | Some asteroidName \<Rightarrow>
          (Inr (res_json\<lparr>
             response := Some (asteroid_fallback asteroidName),
             success := Some False,
             asteroid := Some asteroidName,
             model := Some (currentModel s)\<rparr>), s))"

text \<open>
  The handler of lines 360-439. \<open>const { asteroidName } = req.body\<close> (line 362) is declared
  inside the \<open>try\<close> block, so the binding is local to that block: the \<open>catch\<close> clause runs
  in the scope of the handler's parameters \<open>req\<close> and \<open>res\<close> and of the module, none of
  which binds \<open>asteroidName\<close>, that is, in no binding of string variables at all.
  The answer of a resolved call is sent without a test of its text (lines 402-411).
\<close>

definition asteroid_info :: "string option \<Rightarrow> upstream_result \<Rightarrow> server_state \<Rightarrow> outcome" where
  "asteroid_info asteroidName up s =
     (if \<not> truthy asteroidName then
        (Inr (res_json\<lparr>
           response := Some ''Please specify which asteroid you're curious about! Try: Bennu, Apophis, Ceres, Eros, or Itokawa.'',
           success := Some False\<rparr>), s)
      else
        (case up of
           Resolved d \<Rightarrow>
             (Inr (res_json\<lparr>
                response := candidate_text d,
                success := Some True,
                asteroid := asteroidName,
                model := Some (currentModel s)\<rparr>), s)
         | Rejected e \<Rightarrow> asteroid_info_catch Map.empty e s))"

subsection \<open>GET /quick-test\<close>

definition quick_test :: "upstream_result \<Rightarrow> server_state \<Rightarrow> outcome" where
  "quick_test up s =
     (case up of
        Resolved d \<Rightarrow>
          (Inr (res_json\<lparr>
             success := Some True,
             r_status := Some ''FULLY OPERATIONAL'',
             response := candidate_text d,
             model := Some (currentModel s)\<rparr>), s)
      | Rejected e \<Rightarrow>
          (Inr (res_json\<lparr>
             success := Some False,
             r_status := Some ''DEGRADED PERFORMANCE'',
             error := Some (err_message e),
             model := Some (currentModel s)\<rparr>), s))"

subsection \<open>The server\<close>

text \<open>
  A request to one of the eight routes, with the inputs its handler reads and the
  outcomes of the upstream calls it awaits.
\<close>

datatype request =
    GetTest
  | GetModels models_result
  | GetTestGemini upstream_result "string \<Rightarrow> upstream_result"
  | PostChat "string option" upstream_result
  | PostEcho "string option"
  | PostAsteroidInfo "string option" upstream_result
  | GetHealth
  | GetQuickTest upstream_result

fun handle :: "(string \<Rightarrow> string \<Rightarrow> int) \<Rightarrow> request \<Rightarrow> server_state \<Rightarrow> outcome" where
  "handle lc GetTest s = test_handler s"
| "handle lc (GetModels up) s = models_handler lc up s"
| "handle lc (GetTestGemini up probe) s = test_gemini up probe s"
| "handle lc (PostChat message up) s = chat message up s"
| "handle lc (PostEcho message) s = echo_handler message s"
| "handle lc (PostAsteroidInfo asteroidName up) s = asteroid_info asteroidName up s"
| "handle lc GetHealth s = health_handler s"
| "handle lc (GetQuickTest up) s = quick_test up s"

text \<open>The state after serving a sequence of requests, one after the other.\<close>

fun run :: "(string \<Rightarrow> string \<Rightarrow> int) \<Rightarrow> request list \<Rightarrow> server_state \<Rightarrow> server_state" where
  "run lc [] s = s"
| "run lc (r # rs) s = run lc rs (snd (handle lc r s))"

text \<open>What a handler sent: the HTTP status, when a response was sent.\<close>

definition sent_status :: "outcome \<Rightarrow> nat option" where
  "sent_status out = (case fst out of Inr r \<Rightarrow> Some (status r) | Inl e \<Rightarrow> None)"

text \<open>A response status in the 2xx range.\<close>

definition is_2xx :: "nat \<Rightarrow> bool" where
  "is_2xx st = (200 \<le> st \<and> st < 300)"

subsection \<open>The fallback selection as the specification words it\<close>

text \<open>
  The priority-ordered topic buckets of the specification, each a set of keywords with
  its canned text, and the rule "first matching bucket wins" by substring search
  (\<open>sublist k s\<close>: \<open>k\<close> occurs in \<open>s\<close> as a contiguous run) over the lowercased message.
  This definition follows the specification; \<open>pickFallback\<close> above follows the code.
\<close>

definition topicBuckets :: "(string list \<times> string) list" where
  "topicBuckets =
     [([''asteroid'', ''neo''], asteroidBucketText),
      ([''mars'', ''planet''], marsBucketText),
      ([''moon'', ''lunar''], moonBucketText),
      ([''star'', ''galaxy''], starBucketText),
      ([''risk'', ''danger''], riskBucketText)]"

definition firstMatchingBucket :: "string \<Rightarrow> string" where
  "firstMatchingBucket message =
     (case find (\<lambda>b. \<exists>k \<in> set (fst b). sublist k (toLowerCase message)) topicBuckets of
        Some b \<Rightarrow> snd b
      | None \<Rightarrow> genericText)"

section \<open>Auxiliary facts\<close>

lemma switch_model_find:
  "switch_model ms s =
     (case find (\<lambda>m. m \<noteq> currentModel s) ms of None \<Rightarrow> s | Some m \<Rightarrow> s\<lparr>currentModel := m\<rparr>)"
  by (induction ms) auto

lemma chat_fallback_find:
  "\<exists>m. find (\<lambda>m. m \<noteq> c) chatFallbackModels = Some m \<and> m \<noteq> c \<and> m \<in> set chatFallbackModels"
  by (auto simp: chatFallbackModels_def)

lemma quick_test_answer:
  "\<exists>r. fst (quick_test up s) = Inr r \<and> status r = 200 \<and>
       success r = Some (case up of Resolved d \<Rightarrow> True | Rejected e \<Rightarrow> False) \<and>
       r_status r = Some (case up of Resolved d \<Rightarrow> ''FULLY OPERATIONAL''
                                   | Rejected e \<Rightarrow> ''DEGRADED PERFORMANCE'') \<and>
       response r = (case up of Resolved d \<Rightarrow> candidate_text d | Rejected e \<Rightarrow> None) \<and>
       model r = Some (currentModel s) \<and>
       snd (quick_test up s) = s"
  by (cases up) (simp_all add: quick_test_def res_json_def)

lemma chat_fails_as_catch:
  "truthy message \<Longrightarrow> \<not> yields_text up \<Longrightarrow>
   \<exists>e. chat message up s = chat_catch message e s \<and>
       (case up of Rejected e' \<Rightarrow> e = e' | Resolved d \<Rightarrow> e = JsError ''AI returned empty response'')"
  by (cases up) (auto simp: chat_def yields_text_def)

lemma chat_catch_model_field:
  "\<exists>r. fst (chat_catch message e s) = Inr r \<and> success r = Some False \<and>
       model r = Some (currentModel (snd (chat_catch message e s))) \<and>
       (if err_status e = Some 404
        then currentModel (snd (chat_catch message e s)) \<noteq> currentModel s \<and>
             currentModel (snd (chat_catch message e s)) \<in> set chatFallbackModels
        else snd (chat_catch message e s) = s)"
  using chat_fallback_find [of "currentModel s"]
  by (auto simp: chat_catch_def Let_def switch_model_find res_json_def)

lemma probe_fallbacks_None:
  "snd (probe_fallbacks probe ms) = None \<longleftrightarrow> (\<forall>m \<in> set ms. \<not> yields_text (probe m))"
  by (induction ms) auto

lemma probe_fallbacks_find:
  "snd (probe_fallbacks probe ms) = find (\<lambda>m. yields_text (probe m)) ms"
  by (induction ms) auto

lemma probe_fallbacks_calls:
  "fst (probe_fallbacks probe ms) =
     takeWhile (\<lambda>m. \<not> yields_text (probe m)) ms @
     (case find (\<lambda>m. yields_text (probe m)) ms of None \<Rightarrow> [] | Some m \<Rightarrow> [m])"
  by (induction ms) auto

lemma test_gemini_try_Inr:
  "(\<exists>r. test_gemini_try up s = Inr r) \<longleftrightarrow> yields_text up"
  by (cases up) (auto simp: test_gemini_try_def yields_text_def)

lemma test_gemini_500:
  "sent_status (test_gemini up probe s) = Some 500 \<longleftrightarrow>
     \<not> yields_text up \<and> (\<forall>m \<in> set testFallbackModels. \<not> yields_text (probe m))"
proof (cases "yields_text up")
  case True
  then obtain r where r: "test_gemini_try up s = Inr r" using test_gemini_try_Inr by blast
  then have "status r = 200"
    by (cases up) (auto simp: test_gemini_try_def res_json_def split: if_splits)
  with r True show ?thesis by (simp add: test_gemini_def sent_status_def)
next
  case False
  then obtain e where e: "test_gemini_try up s = Inl e"
    using test_gemini_try_Inr [of up s] by (cases "test_gemini_try up s") auto
  show ?thesis
  proof (cases "snd (probe_fallbacks probe testFallbackModels)")
    case None
    with e False show ?thesis
      using probe_fallbacks_None [of probe testFallbackModels]
      by (simp add: test_gemini_def sent_status_def res_json_def)
  next
    case (Some m)
    with e False show ?thesis
      using probe_fallbacks_None [of probe testFallbackModels]
      by (simp add: test_gemini_def sent_status_def res_json_def)
  qed
qed

lemma handler_statuses:
  "sent_status (test_handler s) = Some 200"
  "sent_status (health_handler s) = Some 200"
  "sent_status (echo_handler message s) = Some 200"
  "sent_status (models_handler lc mup s) = Some 200"
  "sent_status (quick_test up s) = Some 200"
  "sent_status (asteroid_info asteroidName up s) \<in> {None, Some 200}"
  by (auto simp: sent_status_def test_handler_def health_handler_def echo_handler_def
        models_handler_def quick_test_def asteroid_info_def asteroid_info_catch_def
        res_json_def Let_def split: models_result.splits upstream_result.splits)

lemma chat_status:
  "sent_status (chat message up s) =
     Some (if \<not> truthy message then 400
           else if (\<exists>e. up = Rejected e \<and> err_status e = Some 429) then 429 else 200)"
  by (cases up) (auto simp: chat_def chat_catch_def sent_status_def res_json_def Let_def)

lemma test_gemini_status:
  "sent_status (test_gemini up probe s) \<in> {Some 200, Some 500}"
  by (cases up)
     (auto simp: test_gemini_def test_gemini_try_def sent_status_def res_json_def
           split: option.splits)

lemma chat_empty_answer:
  "truthy message \<Longrightarrow> \<not> truthy (candidate_text d) \<Longrightarrow>
   \<exists>r. fst (chat message (Resolved d) s) = Inr r \<and> status r = 200 \<and> success r = Some False \<and>
       response r = Some (pickFallback message)"
  by (simp add: chat_def chat_catch_def res_json_def)

lemma handlers_keep_state:
  "snd (test_handler s) = s"
  "snd (health_handler s) = s"
  "snd (echo_handler message s) = s"
  "snd (models_handler lc mup s) = s"
  "snd (quick_test up s) = s"
  "snd (asteroid_info asteroidName up s) = s"
  by (simp_all add: test_handler_def health_handler_def echo_handler_def models_handler_def
        quick_test_def asteroid_info_def asteroid_info_catch_def Let_def
        split: models_result.splits upstream_result.splits)

lemma chat_catch_currentModel:
  "currentModel (snd (chat_catch msg e s)) = currentModel s \<or>
   currentModel (snd (chat_catch msg e s)) \<in> set chatFallbackModels"
proof -
  have "currentModel (switch_model chatFallbackModels s) \<in> set chatFallbackModels"
    using chat_fallback_find [of "currentModel s"] by (auto simp: switch_model_find)
  then show ?thesis by (simp add: chat_catch_def Let_def)
qed

lemma chat_currentModel:
  "currentModel (snd (chat msg u s)) = currentModel s \<or>
   currentModel (snd (chat msg u s)) \<in> set chatFallbackModels"
proof (cases "truthy msg \<and> \<not> yields_text u")
  case True
  then obtain e where "chat msg u s = chat_catch msg e s"
    using chat_fails_as_catch [of msg u s] by blast
  then show ?thesis using chat_catch_currentModel [of msg e s] by simp
next
  case False
  then have "snd (chat msg u s) = s"
    by (cases u) (auto simp: chat_def yields_text_def)
  then show ?thesis by simp
qed

lemma probe_fallbacks_member:
  "snd (probe_fallbacks probe ms) = Some m \<Longrightarrow> m \<in> set ms"
  by (induction ms) (auto split: if_splits)

lemma test_gemini_currentModel:
  "currentModel (snd (test_gemini u probe s)) = currentModel s \<or>
   currentModel (snd (test_gemini u probe s)) \<in> set testFallbackModels"
proof (cases "test_gemini_try u s")
  case (Inr r)
  then show ?thesis by (simp add: test_gemini_def)
next
  case (Inl e)
  show ?thesis
  proof (cases "snd (probe_fallbacks probe testFallbackModels)")
    case None
    with Inl show ?thesis by (simp add: test_gemini_def)
  next
    case (Some m)
    then have "m \<in> set testFallbackModels" by (rule probe_fallbacks_member)
    with Inl Some show ?thesis by (simp add: test_gemini_def)
  qed
qed

lemma handle_currentModel:
  "currentModel (snd (handle lc req s)) = currentModel s \<or>
   currentModel (snd (handle lc req s)) \<in> set chatFallbackModels \<union> set testFallbackModels"
proof (cases req)
  case (PostChat msg u)
  then show ?thesis using chat_currentModel [of msg u s] by auto
next
  case (GetTestGemini u probe)
  then show ?thesis using test_gemini_currentModel [of u probe s] by auto
qed (simp_all add: handlers_keep_state)

lemma run_currentModel:
  "currentModel s \<in> K \<Longrightarrow> set chatFallbackModels \<union> set testFallbackModels \<subseteq> K \<Longrightarrow>
   currentModel (run lc reqs s) \<in> K"
proof (induction reqs arbitrary: s)
  case Nil
  then show ?case by simp
next
  case (Cons r rs)
  have "currentModel (snd (handle lc r s)) \<in> K"
    using handle_currentModel [of lc r s] Cons.prems by auto
  then show ?case using Cons by simp
qed

lemma includes_str_sublist: "includes_str s sub = sublist sub s"
  by (induction s) (auto simp: sublist_Cons_right)

lemma mset_insert_by: "mset (insert_by cmp x ys) = add_mset x (mset ys)"
  by (induction ys) auto

lemma mset_js_sort: "mset (js_sort cmp xs) = mset xs"
  by (induction xs) (auto simp: js_sort_def mset_insert_by)

lemma set_insert_by: "set (insert_by cmp x ys) = insert x (set ys)"
  by (induction ys) auto

lemma sorted_insert_by:
  assumes total: "\<And>a b. cmp a b \<le> 0 \<or> cmp b a \<le> 0"
    and trans: "\<And>a b c. cmp a b \<le> 0 \<Longrightarrow> cmp b c \<le> 0 \<Longrightarrow> cmp a c \<le> 0"
  shows "sorted_wrt (\<lambda>a b. cmp a b \<le> 0) ys \<Longrightarrow>
         sorted_wrt (\<lambda>a b. cmp a b \<le> 0) (insert_by cmp x ys)"
proof (induction ys)
  case Nil
  then show ?case by simp
next
  case (Cons y ys)
  show ?case
  proof (cases "cmp x y \<le> 0")
    case True
    then have "\<forall>z \<in> set ys. cmp x z \<le> 0"
      using Cons.prems trans by auto
    with True Cons.prems show ?thesis by simp
  next
    case False
    then have "cmp y x \<le> 0" using total [of x y] by simp
    with False Cons show ?thesis by (simp add: set_insert_by)
  qed
qed

lemma sorted_js_sort:
  assumes total: "\<And>a b. cmp a b \<le> 0 \<or> cmp b a \<le> 0"
    and trans: "\<And>a b c. cmp a b \<le> 0 \<Longrightarrow> cmp b c \<le> 0 \<Longrightarrow> cmp a c \<le> 0"
  shows "sorted_wrt (\<lambda>a b. cmp a b \<le> 0) (js_sort cmp xs)"
proof (induction xs)
  case Nil
  then show ?case by (simp add: js_sort_def)
next
  case (Cons x xs)
  have "js_sort cmp (x # xs) = insert_by cmp x (js_sort cmp xs)"
    by (simp add: js_sort_def)
  then show ?case
    using sorted_insert_by [of cmp "js_sort cmp xs" x, OF total trans] Cons by simp
qed

lemma compareModels_le:
  "compareModels lc a b \<le> 0 \<longleftrightarrow>
     (sublist ''flash'' (entry_name b) \<longrightarrow> sublist ''flash'' (entry_name a)) \<and>
     (sublist ''flash'' (entry_name a) = sublist ''flash'' (entry_name b) \<longrightarrow>
        lc (entry_name a) (entry_name b) \<le> 0)"
  by (auto simp: compareModels_def includes_str_sublist)

lemma keep_model_iff:
  "keep_model m \<longleftrightarrow>
     (\<exists>n methods. name m = Some n \<and> n \<noteq> [] \<and> supportedGenerationMethods m = Some methods \<and>
        ''generateContent'' \<in> set methods \<and>
        (\<forall>x \<in> set [''embedding'', ''imagen'', ''veo'', ''audio'', ''tts'']. \<not> sublist x n))"
  by (auto simp: keep_model_def includes_str_sublist split: option.splits)

lemma replace_first_prefix: "pat \<noteq> [] \<Longrightarrow> replace_first pat [] (pat @ i) = i"
  by (cases pat) simp_all

lemma models_prefix_banned:
  "x \<in> set [''embedding'', ''imagen'', ''veo'', ''audio'', ''tts''] \<Longrightarrow>
   sublist x (''models/'' @ i) \<longleftrightarrow> sublist x i"
  unfolding includes_str_sublist [symmetric]
  by (cases i) auto

lemma asteroid_fallback_bennu:
  "asteroid_fallback ''Bennu'' = bennuSheet \<and>
   asteroid_fallback '' bennu '' = bennuSheet \<and>
   asteroid_fallback ''BENNU'' = bennuSheet"
proof -
  have ne: "bennuSheet \<noteq> []" by (simp add: bennuSheet_def join_lines_def)
  have k: "trim (toLowerCase ''Bennu'') = ''bennu''" "trim (toLowerCase '' bennu '') = ''bennu''"
    "trim (toLowerCase ''BENNU'') = ''bennu''"
    by (simp_all add: trim_def isWhiteSpace_def toLowerCase_def toLowerChar_def)
  have "map_of asteroidDatabase ''bennu'' = Some bennuSheet"
    by (simp add: asteroidDatabase_def)
  with ne k show ?thesis by (simp add: asteroid_fallback_def or_else_def)
qed

lemma lexCompare_total: "lexCompare a b \<le> 0 \<or> lexCompare b a \<le> 0"
proof (induction a b rule: lexCompare.induct)
  case (4 x xs y ys)
  then show ?case by (cases "charCode x < charCode y"; cases "charCode y < charCode x"; simp)
qed simp_all

lemma lexCompare_trans:
  "lexCompare a b \<le> 0 \<Longrightarrow> lexCompare b c \<le> 0 \<Longrightarrow> lexCompare a c \<le> 0"
proof (induction a b arbitrary: c rule: lexCompare.induct)
  case 1
  then show ?case by simp
next
  case (2 y ys)
  then show ?case by (cases c) simp_all
next
  case (3 x xs)
  then show ?case by simp
next
  case (4 x xs y ys)
  show ?case
  proof (cases c)
    case Nil
    with 4 show ?thesis by simp
  next
    case (Cons z zs)
    from "4.prems"(1) have xy: "charCode x \<le> charCode y"
      by (simp split: if_splits)
    from "4.prems"(2) Cons have yz: "charCode y \<le> charCode z"
      by (simp split: if_splits)
    show ?thesis
    proof (cases "charCode x < charCode z")
      case True
      with Cons show ?thesis by simp
    next
      case False
      with xy yz have eq: "charCode x = charCode y" "charCode y = charCode z" by simp_all
      with "4.prems" Cons have "lexCompare xs ys \<le> 0" "lexCompare ys zs \<le> 0" by simp_all
      then have "lexCompare xs zs \<le> 0" using "4.IH" eq by simp
      with eq Cons show ?thesis by simp
    qed
  qed
qed

section \<open>The claims\<close>

subsection \<open>Claim C1: statuses of failed /chat requests and of the whole server\<close>

text \<open>
  Claim C1 says that every /chat request whose upstream call fails is answered with
  status 200 and success:false, a rate-limit failure included, and that the server's only
  non-2xx answers are 400 and 500. The rate-limit branch of lines 295-303 answers with
  \<open>res.status(429)\<close>: a chat request whose upstream call is rejected with status 429 is
  answered 429, which is not a 2xx status.
\<close>

theorem chat_rate_limit_counterexample:
  "sent_status (chat (Some ''Tell me about asteroids'')
      (Rejected (AxiosError (Some (429, None)) ''Request failed with status code 429''))
      initial_state) = Some 429 \<and> \<not> is_2xx 429"
  by (simp add: sent_status_def chat_def chat_catch_def is_2xx_def)

text \<open>
  Claim C1, amended. Every /chat request with a message whose upstream call fails (it is
  rejected, or it resolves without text) is answered with success:false, with status 429
  when the upstream answered 429 and with status 200 otherwise. A response that a route
  handler sends with a non-2xx status is one of three: 400 from /chat without a message,
  429 from /chat on an upstream 429, 500 from /test-gemini when the first call and every
  call of the fallback list yield no text.
\<close>

theorem chat_failure_statuses:
  "(truthy message \<and> \<not> yields_text up \<longrightarrow>
      (\<exists>r. fst (chat message up s) = Inr r \<and> success r = Some False \<and>
           status r = (if \<exists>e. up = Rejected e \<and> err_status e = Some 429 then 429 else 200))) \<and>
   (sent_status (handle lc req s') = Some st \<and> \<not> is_2xx st \<longrightarrow>
      (\<exists>msg u. req = PostChat msg u \<and> \<not> truthy msg \<and> st = 400) \<or>
      (\<exists>msg e. req = PostChat msg (Rejected e) \<and> truthy msg \<and> err_status e = Some 429 \<and>
               st = 429) \<or>
      (\<exists>u probe. req = GetTestGemini u probe \<and> \<not> yields_text u \<and>
         (\<forall>m \<in> set [''gemini-2.0-flash'', ''gemini-pro-latest'', ''gemini-exp-1206'',
                      ''gemini-2.0-flash-001'']. \<not> yields_text (probe m)) \<and>
         st = 500))"
proof (intro conjI impI)
  assume a: "truthy message \<and> \<not> yields_text up"
  then obtain e where e: "chat message up s = chat_catch message e s"
    and ce: "case up of Rejected e' \<Rightarrow> e = e' | Resolved d \<Rightarrow> e = JsError ''AI returned empty response''"
    using chat_fails_as_catch [of message up s] by blast
  from ce have "err_status e = Some 429 \<longleftrightarrow> (\<exists>e'. up = Rejected e' \<and> err_status e' = Some 429)"
    by (cases up) auto
  then show "\<exists>r. fst (chat message up s) = Inr r \<and> success r = Some False \<and>
           status r = (if \<exists>e. up = Rejected e \<and> err_status e = Some 429 then 429 else 200)"
    unfolding e by (simp add: chat_catch_def Let_def res_json_def)
next
  assume a: "sent_status (handle lc req s') = Some st \<and> \<not> is_2xx st"
  show "(\<exists>msg u. req = PostChat msg u \<and> \<not> truthy msg \<and> st = 400) \<or>
      (\<exists>msg e. req = PostChat msg (Rejected e) \<and> truthy msg \<and> err_status e = Some 429 \<and>
               st = 429) \<or>
      (\<exists>u probe. req = GetTestGemini u probe \<and> \<not> yields_text u \<and>
         (\<forall>m \<in> set [''gemini-2.0-flash'', ''gemini-pro-latest'', ''gemini-exp-1206'',
                      ''gemini-2.0-flash-001'']. \<not> yields_text (probe m)) \<and>
         st = 500)"
  proof (cases req)
    case (PostChat msg u)
    with a show ?thesis
      using chat_status [of msg u s'] by (auto simp: is_2xx_def split: if_splits)
  next
    case (GetTestGemini u probe)
    with a have "st = 500"
      using test_gemini_status [of u probe s'] by (auto simp: is_2xx_def)
    with a GetTestGemini show ?thesis
      using test_gemini_500 [of u probe s'] by (simp add: testFallbackModels_def)
  next
    case (PostAsteroidInfo n u)
    with a show ?thesis
      using handler_statuses(6) [of n u s'] by (auto simp: is_2xx_def)
  qed (use a handler_statuses in \<open>auto simp: is_2xx_def\<close>)
qed

theorem chat_failure_statuses_witness:
  "truthy (Some ''Tell me about Mars'') \<and>
   \<not> yields_text (Rejected (AxiosError None ''timeout of 30000ms exceeded'')) \<and>
   (\<exists>r. fst (chat (Some ''Tell me about Mars'')
              (Rejected (AxiosError None ''timeout of 30000ms exceeded'')) initial_state) = Inr r \<and>
        success r = Some False \<and> status r = 200) \<and>
   sent_status (handle lexCompare (PostChat None (Rejected (AxiosError None ''unused'')))
      initial_state) = Some 400 \<and>
   \<not> is_2xx 400"
  using chat_failure_statuses [of "Some ''Tell me about Mars''"
          "Rejected (AxiosError None ''timeout of 30000ms exceeded'')" initial_state
          lexCompare "PostChat None (Rejected (AxiosError None ''unused''))" initial_state 400]
  by (simp add: yields_text_def is_2xx_def sent_status_def chat_def res_json_def)

subsection \<open>Claim C2: an upstream answer without text\<close>

text \<open>
  Claim C2 says that Chat and Asteroid Info treat a 2xx upstream answer without a text
  segment as a failure and never send success:true with a missing response text. /chat
  does (lines 278-289, \<open>chat_empty_answer\<close> above); /asteroid-info sends the answer as it
  is (lines 402-411): for the name Bennu and a resolved call without text, the response
  is 200 with success:true and no response text.
\<close>

theorem asteroid_info_empty_answer:
  "asteroid_info (Some ''Bennu'') (Resolved \<lparr>candidate_text = None, totalTokenCount = None\<rparr>)
     initial_state =
   (Inr (res_json\<lparr>response := None, success := Some True, asteroid := Some ''Bennu'',
                   model := Some ''gemini-2.5-flash''\<rparr>), initial_state)"
  by (simp add: asteroid_info_def initial_state_def)

subsection \<open>Claim C3: ActiveModel after a failed /chat request\<close>

text \<open>
  Claim C3. For a /chat request with a message whose upstream call is rejected: when the
  rejection carries status 429, \<open>currentModel\<close> after the request is its value before;
  when it carries status 404, \<open>currentModel\<close> after the request is the first entry of
  the list gemini-2.0-flash, gemini-pro-latest, gemini-exp-1206 that differs from its
  value before.
\<close>

theorem chat_model_after_failure:
  "truthy message \<Longrightarrow>
     (err_status e = Some 429 \<longrightarrow>
        currentModel (snd (chat message (Rejected e) s)) = currentModel s) \<and>
     (err_status e = Some 404 \<longrightarrow>
        find (\<lambda>m. m \<noteq> currentModel s)
          [''gemini-2.0-flash'', ''gemini-pro-latest'', ''gemini-exp-1206''] =
        Some (currentModel (snd (chat message (Rejected e) s))))"
  using chat_fallback_find [of "currentModel s"]
  by (auto simp: chat_def chat_catch_def Let_def switch_model_find chatFallbackModels_def
           split: option.splits)

theorem chat_model_after_failure_witness:
  "truthy (Some ''Tell me about Mars'') \<and>
   err_status (AxiosError (Some (429, None)) ''Request failed with status code 429'') = Some 429 \<and>
   currentModel (snd (chat (Some ''Tell me about Mars'')
      (Rejected (AxiosError (Some (429, None)) ''Request failed with status code 429''))
      initial_state)) = ''gemini-2.5-flash'' \<and>
   err_status (AxiosError (Some (404, None)) ''Request failed with status code 404'') = Some 404 \<and>
   currentModel (snd (chat (Some ''Tell me about Mars'')
      (Rejected (AxiosError (Some (404, None)) ''Request failed with status code 404''))
      \<lparr>currentModel = ''gemini-2.0-flash''\<rparr>)) = ''gemini-pro-latest''"
  using chat_model_after_failure [of "Some ''Tell me about Mars''"
          "AxiosError (Some (429, None)) ''Request failed with status code 429''" initial_state]
        chat_model_after_failure [of "Some ''Tell me about Mars''"
          "AxiosError (Some (404, None)) ''Request failed with status code 404''"
          "\<lparr>currentModel = ''gemini-2.0-flash''\<rparr>"]
  by (simp add: initial_state_def)

subsection \<open>Claim C4: ActiveModel is always a known model\<close>

text \<open>
  Claim C4. \<open>currentModel\<close> starts as gemini-2.5-flash; after any sequence of requests,
  whatever the upstream outcomes, it is a non-empty member of the set of the five known
  model identifiers; and one request either leaves it as it was or sets it to a member
  of that set.
\<close>

theorem currentModel_always_known:
  "currentModel initial_state = ''gemini-2.5-flash'' \<and>
   currentModel (run lc reqs initial_state) \<in>
     {''gemini-2.5-flash'', ''gemini-2.0-flash'', ''gemini-pro-latest'', ''gemini-exp-1206'',
      ''gemini-2.0-flash-001''} \<and>
   currentModel (run lc reqs initial_state) \<noteq> [] \<and>
   (currentModel (snd (handle lc req s)) = currentModel s \<or>
    currentModel (snd (handle lc req s)) \<in>
      {''gemini-2.5-flash'', ''gemini-2.0-flash'', ''gemini-pro-latest'', ''gemini-exp-1206'',
       ''gemini-2.0-flash-001''})"
proof -
  let ?K = "{''gemini-2.5-flash'', ''gemini-2.0-flash'', ''gemini-pro-latest'',
             ''gemini-exp-1206'', ''gemini-2.0-flash-001''}"
  have sub: "set chatFallbackModels \<union> set testFallbackModels \<subseteq> ?K"
    by (simp add: chatFallbackModels_def testFallbackModels_def)
  have init: "currentModel initial_state \<in> ?K" by (simp add: initial_state_def)
  have r: "currentModel (run lc reqs initial_state) \<in> ?K"
    by (rule run_currentModel [OF init sub])
  then have ne: "currentModel (run lc reqs initial_state) \<noteq> []" by auto
  have h: "currentModel (snd (handle lc req s)) = currentModel s \<or>
           currentModel (snd (handle lc req s)) \<in> ?K"
    using handle_currentModel [of lc req s] sub by blast
  show ?thesis using r ne h by (simp add: initial_state_def)
qed

theorem currentModel_always_known_witness:
  "currentModel (run lexCompare
      [PostChat (Some ''hi'') (Rejected (AxiosError (Some (404, None)) ''Request failed with status code 404'')),
       GetQuickTest (Rejected (AxiosError None ''timeout of 10000ms exceeded''))]
      initial_state) = ''gemini-2.0-flash''"
  using currentModel_always_known [of lexCompare
      "[PostChat (Some ''hi'') (Rejected (AxiosError (Some (404, None)) ''Request failed with status code 404'')),
        GetQuickTest (Rejected (AxiosError None ''timeout of 10000ms exceeded''))]"]
  by (simp add: chat_def chat_catch_def chatFallbackModels_def initial_state_def quick_test_def)

subsection \<open>Claim C5: the model test\<close>

text \<open>
  Claim C5. /test-gemini first calls the upstream with \<open>currentModel\<close>. When that call
  yields text, the answer is 200 with success:true, no fallback call is made and the
  state is unchanged. Otherwise the models of the fallback list are called in order up
  to and including the first that yields text; that model becomes \<open>currentModel\<close> and
  the answer is 200 with success:true naming it. When no model of the list yields text,
  all four were called, the state is unchanged and the answer is 500 with success:false
  and the list as \<open>triedModels\<close>. The answer is 500 if and only if the first call and
  every fallback call yield no text.
\<close>

theorem test_gemini_fallback_order:
  "(yields_text up \<longrightarrow>
      snd (test_gemini up probe s) = s \<and>
      test_gemini_fallback_calls up probe s = [] \<and>
      (\<exists>r. fst (test_gemini up probe s) = Inr r \<and> status r = 200 \<and> success r = Some True \<and>
           model r = Some (currentModel s))) \<and>
   (\<not> yields_text up \<longrightarrow>
      (case find (\<lambda>m. yields_text (probe m))
              [''gemini-2.0-flash'', ''gemini-pro-latest'', ''gemini-exp-1206'',
               ''gemini-2.0-flash-001''] of
         Some m \<Rightarrow>
           snd (test_gemini up probe s) = s\<lparr>currentModel := m\<rparr> \<and>
           test_gemini_fallback_calls up probe s =
             takeWhile (\<lambda>m. \<not> yields_text (probe m))
               [''gemini-2.0-flash'', ''gemini-pro-latest'', ''gemini-exp-1206'',
                ''gemini-2.0-flash-001''] @ [m] \<and>
           (\<exists>r. fst (test_gemini up probe s) = Inr r \<and> status r = 200 \<and>
                success r = Some True \<and> model r = Some m)
       | None \<Rightarrow>
           snd (test_gemini up probe s) = s \<and>
           test_gemini_fallback_calls up probe s =
             [''gemini-2.0-flash'', ''gemini-pro-latest'', ''gemini-exp-1206'',
              ''gemini-2.0-flash-001''] \<and>
           (\<exists>r. fst (test_gemini up probe s) = Inr r \<and> status r = 500 \<and>
                success r = Some False \<and>
                triedModels r = Some [''gemini-2.0-flash'', ''gemini-pro-latest'',
                                      ''gemini-exp-1206'', ''gemini-2.0-flash-001'']))) \<and>
   (sent_status (test_gemini up probe s) = Some 500 \<longleftrightarrow>
      \<not> yields_text up \<and>
      (\<forall>m \<in> set [''gemini-2.0-flash'', ''gemini-pro-latest'', ''gemini-exp-1206'',
                   ''gemini-2.0-flash-001'']. \<not> yields_text (probe m)))"
proof (intro conjI impI)
  assume y: "yields_text up"
  then obtain d where d: "up = Resolved d" "truthy (candidate_text d)"
    by (cases up) (auto simp: yields_text_def)
  then have t: "test_gemini_try up s =
      Inr (res_json\<lparr>success := Some True, model := Some (currentModel s),
                     response := candidate_text d\<rparr>)"
    by (simp add: test_gemini_try_def)
  show "snd (test_gemini up probe s) = s"
    by (simp add: test_gemini_def t)
  show "test_gemini_fallback_calls up probe s = []"
    by (simp add: test_gemini_fallback_calls_def t)
  show "\<exists>r. fst (test_gemini up probe s) = Inr r \<and> status r = 200 \<and> success r = Some True \<and>
           model r = Some (currentModel s)"
    by (simp add: test_gemini_def t res_json_def)
next
  let ?L = "[''gemini-2.0-flash'', ''gemini-pro-latest'', ''gemini-exp-1206'',
             ''gemini-2.0-flash-001'']"
  assume n: "\<not> yields_text up"
  then obtain e where e: "test_gemini_try up s = Inl e"
    using test_gemini_try_Inr [of up s] by (cases "test_gemini_try up s") auto
  have L: "testFallbackModels = ?L" by (simp add: testFallbackModels_def)
  show "case find (\<lambda>m. yields_text (probe m)) ?L of
         Some m \<Rightarrow>
           snd (test_gemini up probe s) = s\<lparr>currentModel := m\<rparr> \<and>
           test_gemini_fallback_calls up probe s =
             takeWhile (\<lambda>m. \<not> yields_text (probe m)) ?L @ [m] \<and>
           (\<exists>r. fst (test_gemini up probe s) = Inr r \<and> status r = 200 \<and>
                success r = Some True \<and> model r = Some m)
       | None \<Rightarrow>
           snd (test_gemini up probe s) = s \<and>
           test_gemini_fallback_calls up probe s = ?L \<and>
           (\<exists>r. fst (test_gemini up probe s) = Inr r \<and> status r = 500 \<and>
                success r = Some False \<and> triedModels r = Some ?L)"
  proof (cases "find (\<lambda>m. yields_text (probe m)) ?L")
    case None
    then have all: "\<forall>m \<in> set ?L. \<not> yields_text (probe m)"
      by (simp only: find_None_iff) blast
    have p: "snd (probe_fallbacks probe testFallbackModels) = None"
      unfolding probe_fallbacks_find L by (rule None)
    have tw: "takeWhile (\<lambda>m. \<not> yields_text (probe m)) ?L = ?L"
      using all by (simp only: takeWhile_eq_all_conv)
    have c: "fst (probe_fallbacks probe testFallbackModels) = ?L"
      by (simp only: probe_fallbacks_calls L None tw option.case append_Nil2)
    show ?thesis
      unfolding None option.case
      by (simp only: test_gemini_def test_gemini_fallback_calls_def e p c sum.case option.case
            fst_conv snd_conv) (simp add: res_json_def L)
  next
    case (Some m)
    have p: "snd (probe_fallbacks probe testFallbackModels) = Some m"
      unfolding probe_fallbacks_find L by (rule Some)
    have c: "fst (probe_fallbacks probe testFallbackModels) =
        takeWhile (\<lambda>m. \<not> yields_text (probe m)) ?L @ [m]"
      by (simp only: probe_fallbacks_calls L Some option.case)
    show ?thesis
      unfolding Some option.case
      by (simp only: test_gemini_def test_gemini_fallback_calls_def e p c sum.case option.case
            fst_conv snd_conv) (simp add: res_json_def)
  qed
next
  show "sent_status (test_gemini up probe s) = Some 500 \<longleftrightarrow>
      \<not> yields_text up \<and>
      (\<forall>m \<in> set [''gemini-2.0-flash'', ''gemini-pro-latest'', ''gemini-exp-1206'',
                   ''gemini-2.0-flash-001'']. \<not> yields_text (probe m))"
    using test_gemini_500 [of up probe s] by (simp only: testFallbackModels_def)
qed

theorem test_gemini_fallback_order_witness:
  "\<not> yields_text (Rejected (AxiosError (Some (404, None)) ''Request failed with status code 404'')) \<and>
   snd (test_gemini (Rejected (AxiosError (Some (404, None)) ''Request failed with status code 404''))
          (\<lambda>m. if m = ''gemini-pro-latest''
               then Resolved \<lparr>candidate_text = Some ''Hello'', totalTokenCount = None\<rparr>
               else Rejected (AxiosError None ''timeout of 5000ms exceeded''))
          initial_state) = \<lparr>currentModel = ''gemini-pro-latest''\<rparr> \<and>
   test_gemini_fallback_calls
     (Rejected (AxiosError (Some (404, None)) ''Request failed with status code 404''))
     (\<lambda>m. if m = ''gemini-pro-latest''
          then Resolved \<lparr>candidate_text = Some ''Hello'', totalTokenCount = None\<rparr>
          else Rejected (AxiosError None ''timeout of 5000ms exceeded''))
     initial_state = [''gemini-2.0-flash'', ''gemini-pro-latest''] \<and>
   sent_status (test_gemini (Rejected (AxiosError None ''timeout of 15000ms exceeded''))
      (\<lambda>m. Rejected (AxiosError None ''timeout of 5000ms exceeded'')) initial_state) = Some 500"
  using test_gemini_fallback_order [of
          "Rejected (AxiosError (Some (404, None)) ''Request failed with status code 404'')"
          "\<lambda>m. if m = ''gemini-pro-latest''
               then Resolved \<lparr>candidate_text = Some ''Hello'', totalTokenCount = None\<rparr>
               else Rejected (AxiosError None ''timeout of 5000ms exceeded'')"
          initial_state]
        test_gemini_fallback_order [of
          "Rejected (AxiosError None ''timeout of 15000ms exceeded'')"
          "\<lambda>m. Rejected (AxiosError None ''timeout of 5000ms exceeded'')" initial_state]
  by (simp add: yields_text_def initial_state_def)

subsection \<open>Claim C6: the choice of the fallback text\<close>

text \<open>
  Claim C6. The fallback text of lines 318-333 depends on the message alone and is the
  text of the first topic bucket, in priority order, one of whose keywords occurs in the
  lowercased message, and the generic text when no keyword occurs: a message containing
  "asteroid" gets the asteroid text, a message containing "mars" and no keyword of the
  asteroid bucket gets the mars text; messages that agree after lowercasing get the same
  text. It is the response text of every failed /chat request that reaches the
  selection, that is, of every failure but the one answered by the rate-limit branch.
\<close>

theorem pickFallback_first_bucket:
  "pickFallback (Some m) = firstMatchingBucket m \<and>
   (sublist ''asteroid'' (toLowerCase m) \<longrightarrow> pickFallback (Some m) = asteroidBucketText) \<and>
   (sublist ''mars'' (toLowerCase m) \<and> \<not> sublist ''asteroid'' (toLowerCase m) \<and>
    \<not> sublist ''neo'' (toLowerCase m) \<longrightarrow> pickFallback (Some m) = marsBucketText) \<and>
   ((\<forall>k \<in> set [''asteroid'', ''neo'', ''mars'', ''planet'', ''moon'', ''lunar'', ''star'',
                  ''galaxy'', ''risk'', ''danger'']. \<not> sublist k (toLowerCase m)) \<longrightarrow>
      pickFallback (Some m) = genericText) \<and>
   (toLowerCase m = toLowerCase m' \<longrightarrow> pickFallback (Some m) = pickFallback (Some m')) \<and>
   (truthy message \<and> \<not> yields_text up \<and> \<not> (\<exists>e. up = Rejected e \<and> err_status e = Some 429) \<longrightarrow>
      (\<exists>r. fst (chat message up s) = Inr r \<and> response r = Some (pickFallback message)))"
proof -
  have low: "toLowerCase (or_else (Some m) []) = toLowerCase m" for m
    by (simp add: or_else_def)
  have a: "pickFallback (Some m) = firstMatchingBucket m"
    by (simp add: pickFallback_def firstMatchingBucket_def topicBuckets_def Let_def low
          includes_str_sublist)
  have b: "sublist ''asteroid'' (toLowerCase m) \<longrightarrow> pickFallback (Some m) = asteroidBucketText"
    by (simp add: pickFallback_def Let_def low includes_str_sublist)
  have c: "sublist ''mars'' (toLowerCase m) \<and> \<not> sublist ''asteroid'' (toLowerCase m) \<and>
    \<not> sublist ''neo'' (toLowerCase m) \<longrightarrow> pickFallback (Some m) = marsBucketText"
    by (simp add: pickFallback_def Let_def low includes_str_sublist)
  have d: "(\<forall>k \<in> set [''asteroid'', ''neo'', ''mars'', ''planet'', ''moon'', ''lunar'', ''star'',
                  ''galaxy'', ''risk'', ''danger'']. \<not> sublist k (toLowerCase m)) \<longrightarrow>
      pickFallback (Some m) = genericText"
    by (simp add: pickFallback_def Let_def low includes_str_sublist)
  have e: "toLowerCase m = toLowerCase m' \<longrightarrow> pickFallback (Some m) = pickFallback (Some m')"
    by (simp add: pickFallback_def Let_def low)
  have f: "truthy message \<and> \<not> yields_text up \<and> \<not> (\<exists>e. up = Rejected e \<and> err_status e = Some 429) \<longrightarrow>
      (\<exists>r. fst (chat message up s) = Inr r \<and> response r = Some (pickFallback message))"
  proof
    assume h: "truthy message \<and> \<not> yields_text up \<and> \<not> (\<exists>e. up = Rejected e \<and> err_status e = Some 429)"
    then obtain e where e: "chat message up s = chat_catch message e s"
      and ce: "case up of Rejected e' \<Rightarrow> e = e' | Resolved d \<Rightarrow> e = JsError ''AI returned empty response''"
      using chat_fails_as_catch [of message up s] by blast
    from ce h have "err_status e \<noteq> Some 429" by (cases up) auto
    then show "\<exists>r. fst (chat message up s) = Inr r \<and> response r = Some (pickFallback message)"
      unfolding e by (simp add: chat_catch_def Let_def res_json_def)
  qed
  from a b c d e f show ?thesis by blast
qed

theorem pickFallback_first_bucket_witness:
  "sublist ''mars'' (toLowerCase ''Tell me about MARS'') \<and>
   \<not> sublist ''asteroid'' (toLowerCase ''Tell me about MARS'') \<and>
   \<not> sublist ''neo'' (toLowerCase ''Tell me about MARS'') \<and>
   pickFallback (Some ''Tell me about MARS'') = marsBucketText \<and>
   firstMatchingBucket ''Tell me about MARS'' = marsBucketText"
proof -
  note t = pickFallback_first_bucket [of "''Tell me about MARS''" "''tell me about mars''"
             "Some ''Tell me about MARS''" "Rejected (AxiosError None ''timeout'')" initial_state]
  have h1: "sublist ''mars'' (toLowerCase ''Tell me about MARS'')"
    by (simp add: includes_str_sublist [symmetric] toLowerCase_def toLowerChar_def)
  have h2: "\<not> sublist ''asteroid'' (toLowerCase ''Tell me about MARS'')"
    by (simp add: includes_str_sublist [symmetric] toLowerCase_def toLowerChar_def)
  have h3: "\<not> sublist ''neo'' (toLowerCase ''Tell me about MARS'')"
    by (simp add: includes_str_sublist [symmetric] toLowerCase_def toLowerChar_def)
  have a: "pickFallback (Some ''Tell me about MARS'') = firstMatchingBucket ''Tell me about MARS''"
    using t by blast
  have b: "pickFallback (Some ''Tell me about MARS'') = marsBucketText"
    using t h1 h2 h3 by blast
  show ?thesis using h1 h2 h3 a b by simp
qed

subsection \<open>Claim C7: the asteroid catalog lookup\<close>

text \<open>
  Claim C7 says that the fallback path of /asteroid-info resolves a name to its fact
  sheet after lowercasing and trimming, and answers an unknown name with the
  under-analysis template. The lookup is written in the \<open>catch\<close> clause (lines 425-427),
  but the clause reads \<open>asteroidName\<close>, which is bound only inside the \<open>try\<close> block:
  for the name Bennu and an upstream call that times out, the handler throws a
  \<open>ReferenceError\<close> and sends no response. /chat, in the same position, reads
  \<open>req.body?.message\<close> (line 318).
\<close>

theorem asteroid_info_fallback_throws:
  "asteroid_info (Some ''Bennu'') (Rejected (AxiosError None ''timeout of 20000ms exceeded''))
     initial_state =
   (Inl (ReferenceError ''asteroidName''), initial_state)"
  by (simp add: asteroid_info_def asteroid_info_catch_def)

subsection \<open>Claim C8: the model listing\<close>

text \<open>
  Claim C8. On a resolved listing call, /models returns exactly the entries of the
  upstream models that have a name, support generateContent and whose name contains none
  of embedding, imagen, veo, audio, tts (each once per upstream occurrence), in an order
  in which no entry without "flash" in its id precedes an entry with it, and in which
  entries of equal flash status are in the order of \<open>localeCompare\<close> on their ids. The
  host's \<open>localeCompare\<close> is a parameter, taken to be a total preorder.
\<close>

theorem models_listing_filtered_sorted:
  assumes total: "\<forall>a b. lc a b \<le> 0 \<or> lc b a \<le> 0"
    and trans: "\<forall>a b c. lc a b \<le> 0 \<and> lc b c \<le> 0 \<longrightarrow> lc a c \<le> 0"
  shows "(\<exists>r. fst (models_handler lc (ModelsResolved (Some ms)) s) = Inr r \<and> status r = 200 \<and>
              models r = Some (textModels lc ms)) \<and>
         mset (textModels lc ms) = mset (map to_entry (filter keep_model ms)) \<and>
         (\<forall>m. keep_model m \<longleftrightarrow>
            (\<exists>n methods. name m = Some n \<and> n \<noteq> [] \<and>
               supportedGenerationMethods m = Some methods \<and>
               ''generateContent'' \<in> set methods \<and>
               (\<forall>x \<in> set [''embedding'', ''imagen'', ''veo'', ''audio'', ''tts'']. \<not> sublist x n))) \<and>
         (\<forall>m i. name m = Some (''models/'' @ i) \<longrightarrow>
            entry_name (to_entry m) = i \<and>
            (\<forall>x \<in> set [''embedding'', ''imagen'', ''veo'', ''audio'', ''tts''].
               sublist x (''models/'' @ i) \<longleftrightarrow> sublist x i)) \<and>
         sorted_wrt
           (\<lambda>a b. (sublist ''flash'' (entry_name b) \<longrightarrow> sublist ''flash'' (entry_name a)) \<and>
                  (sublist ''flash'' (entry_name a) = sublist ''flash'' (entry_name b) \<longrightarrow>
                     lc (entry_name a) (entry_name b) \<le> 0))
           (textModels lc ms)"
proof -
  let ?cmp = "compareModels lc"
  have tot: "\<And>a b. ?cmp a b \<le> 0 \<or> ?cmp b a \<le> 0"
    using total unfolding compareModels_le by blast
  have tr: "\<And>a b c. ?cmp a b \<le> 0 \<Longrightarrow> ?cmp b c \<le> 0 \<Longrightarrow> ?cmp a c \<le> 0"
    using trans unfolding compareModels_le by blast
  have "sorted_wrt (\<lambda>a b. ?cmp a b \<le> 0) (textModels lc ms)"
    unfolding textModels_def by (rule sorted_js_sort [of ?cmp, OF tot tr])
  then have srt: "sorted_wrt
           (\<lambda>a b. (sublist ''flash'' (entry_name b) \<longrightarrow> sublist ''flash'' (entry_name a)) \<and>
                  (sublist ''flash'' (entry_name a) = sublist ''flash'' (entry_name b) \<longrightarrow>
                     lc (entry_name a) (entry_name b) \<le> 0))
           (textModels lc ms)"
    by (simp only: compareModels_le)
  have hd: "\<exists>r. fst (models_handler lc (ModelsResolved (Some ms)) s) = Inr r \<and> status r = 200 \<and>
              models r = Some (textModels lc ms)"
    by (simp add: models_handler_def Let_def res_json_def)
  have ms: "mset (textModels lc ms) = mset (map to_entry (filter keep_model ms))"
    by (simp only: textModels_def mset_js_sort)
  have nm: "\<forall>m i. name m = Some (''models/'' @ i) \<longrightarrow>
            entry_name (to_entry m) = i \<and>
            (\<forall>x \<in> set [''embedding'', ''imagen'', ''veo'', ''audio'', ''tts''].
               sublist x (''models/'' @ i) \<longleftrightarrow> sublist x i)"
  proof (intro allI impI conjI ballI)
    fix m :: model_descriptor and i
    assume n: "name m = Some (''models/'' @ i)"
    have "replace_first ''models/'' [] (''models/'' @ i) = i"
      by (rule replace_first_prefix) simp
    then show "entry_name (to_entry m) = i" by (simp add: to_entry_def n)
  next
    fix m :: model_descriptor and i x
    assume "x \<in> set [''embedding'', ''imagen'', ''veo'', ''audio'', ''tts'']"
    then show "sublist x (''models/'' @ i) \<longleftrightarrow> sublist x i"
      by (rule models_prefix_banned)
  qed
  from hd ms keep_model_iff nm srt show ?thesis by blast
qed

theorem models_listing_filtered_sorted_witness:
  "map entry_name (textModels lexCompare
     [\<lparr>name = Some ''models/gemini-pro-latest'', displayName = Some ''Gemini Pro Latest'',
       description = None, supportedGenerationMethods = Some [''generateContent'', ''countTokens'']\<rparr>,
      \<lparr>name = Some ''models/text-embedding-004'', displayName = None,
       description = None, supportedGenerationMethods = Some [''embedContent'', ''generateContent'']\<rparr>,
      \<lparr>name = Some ''models/gemini-2.5-flash'', displayName = None,
       description = None, supportedGenerationMethods = Some [''generateContent'']\<rparr>,
      \<lparr>name = Some ''models/gemini-2.0-flash'', displayName = None,
       description = None, supportedGenerationMethods = Some [''generateContent'']\<rparr>,
      \<lparr>name = Some ''models/aqa'', displayName = None,
       description = None, supportedGenerationMethods = Some [''generateAnswer'']\<rparr>]) =
   [''gemini-2.0-flash'', ''gemini-2.5-flash'', ''gemini-pro-latest'']"
proof -
  have tot: "\<forall>a b. lexCompare a b \<le> 0 \<or> lexCompare b a \<le> 0"
    using lexCompare_total by blast
  have tr: "\<forall>a b c. lexCompare a b \<le> 0 \<and> lexCompare b c \<le> 0 \<longrightarrow> lexCompare a c \<le> 0"
    using lexCompare_trans by blast
  note t = models_listing_filtered_sorted [OF tot tr, of
     "[\<lparr>name = Some ''models/gemini-pro-latest'', displayName = Some ''Gemini Pro Latest'',
       description = None, supportedGenerationMethods = Some [''generateContent'', ''countTokens'']\<rparr>,
      \<lparr>name = Some ''models/text-embedding-004'', displayName = None,
       description = None, supportedGenerationMethods = Some [''embedContent'', ''generateContent'']\<rparr>,
      \<lparr>name = Some ''models/gemini-2.5-flash'', displayName = None,
       description = None, supportedGenerationMethods = Some [''generateContent'']\<rparr>,
      \<lparr>name = Some ''models/gemini-2.0-flash'', displayName = None,
       description = None, supportedGenerationMethods = Some [''generateContent'']\<rparr>,
      \<lparr>name = Some ''models/aqa'', displayName = None,
       description = None, supportedGenerationMethods = Some [''generateAnswer'']\<rparr>]" initial_state]
  show ?thesis
    using t
    by (simp add: textModels_def js_sort_def keep_model_def to_entry_def compareModels_def
          charCode_def)
qed

subsection \<open>Claim C9: the quick test\<close>

text \<open>
  Claim C9 says that /quick-test answers every upstream outcome, an empty response
  included, with a 2xx status, reports the failure as a degraded payload with
  success:false and leaves \<open>currentModel\<close> as it was. The status and the state are as
  claimed for every outcome, and a rejected call is reported as degraded
  (\<open>quick_test_answer\<close> above). But the text of a resolved call is sent without a test
  (lines 490-502): an upstream answer without text is reported with success:true and
  the status text FULLY OPERATIONAL, with no response text. /chat and /test-gemini test
  the text and treat its absence as a failure.
\<close>

theorem quick_test_empty_answer:
  "quick_test (Resolved \<lparr>candidate_text = None, totalTokenCount = None\<rparr>) initial_state =
   (Inr (res_json\<lparr>success := Some True, r_status := Some ''FULLY OPERATIONAL'',
                   response := None, model := Some ''gemini-2.5-flash''\<rparr>), initial_state)"
  by (simp add: quick_test_def initial_state_def)

subsection \<open>Claim C10: the model field of a degraded /chat response\<close>

text \<open>
  Claim C10. For a /chat request with a message whose upstream call fails, the response
  carries success:false and its \<open>model\<close> field is \<open>currentModel\<close> as it is after the
  request. When the failure has status 404, that is the newly promoted model, a member
  of the chat fallback list different from the model the failed call was made with; in
  every other failure case the state, and so \<open>currentModel\<close>, is unchanged.
\<close>

theorem chat_failure_model_field:
  "truthy message \<Longrightarrow> \<not> yields_text up \<Longrightarrow>
   \<exists>r. fst (chat message up s) = Inr r \<and> success r = Some False \<and>
       model r = Some (currentModel (snd (chat message up s))) \<and>
       (if \<exists>e. up = Rejected e \<and> err_status e = Some 404
        then currentModel (snd (chat message up s)) \<noteq> currentModel s \<and>
             currentModel (snd (chat message up s)) \<in>
               set [''gemini-2.0-flash'', ''gemini-pro-latest'', ''gemini-exp-1206'']
        else snd (chat message up s) = s)"
proof -
  assume "truthy message" and "\<not> yields_text up"
  then obtain e where e: "chat message up s = chat_catch message e s"
    and ce: "case up of Rejected e' \<Rightarrow> e = e' | Resolved d \<Rightarrow> e = JsError ''AI returned empty response''"
    using chat_fails_as_catch [of message up s] by blast
  from ce have st: "(\<exists>e'. up = Rejected e' \<and> err_status e' = Some 404) \<longleftrightarrow> err_status e = Some 404"
    by (cases up) auto
  show ?thesis
    unfolding e st using chat_catch_model_field [of message e s]
    by (simp only: chatFallbackModels_def)
qed

theorem chat_failure_model_field_witness:
  "truthy (Some ''hello'') \<and>
   \<not> yields_text (Rejected (AxiosError (Some (404, None)) ''Request failed with status code 404'')) \<and>
   (\<exists>r. fst (chat (Some ''hello'')
              (Rejected (AxiosError (Some (404, None)) ''Request failed with status code 404''))
              initial_state) = Inr r \<and>
        model r = Some ''gemini-2.0-flash'') \<and>
   currentModel initial_state \<noteq> ''gemini-2.0-flash''"
  using chat_failure_model_field [of "Some ''hello''"
          "Rejected (AxiosError (Some (404, None)) ''Request failed with status code 404'')"
          initial_state]
  by (auto simp: initial_state_def chat_def chat_catch_def chatFallbackModels_def
        yields_text_def)

end
